theory Spec2Isabelle
  imports Main
begin

section \<open>The Pomodoro timer component\<close>

text \<open>
  The component \<^verbatim>\<open>PomodoroTimer\<close> of \<^verbatim>\<open>src/components/Pomodoro.tsx\<close> keeps its
  state in React state cells and changes it from event handlers. Each handler is
  modelled as a function from the state before the event to the state after it; what a
  handler reads from the environment (\<^verbatim>\<open>Date.now()\<close>, \<^verbatim>\<open>document.hidden\<close>, the text of
  an input field after \<^verbatim>\<open>parseInt\<close>) is a parameter. Times of day are integers in
  milliseconds, durations are integers in seconds. Sending a desktop notification
  changes no state cell and is left out, as are the two cells that only drive the
  display (\<^verbatim>\<open>showSettings\<close>, \<^verbatim>\<open>notificationPermission\<close>).
\<close>

subsection \<open>State\<close>

text \<open>
  The two postures. The source stores the strings \<^verbatim>\<open>"sitting"\<close> and \<^verbatim>\<open>"standing"\<close>; no
  handler is ever given another string.
\<close>

datatype position = Sitting | Standing

text \<open>
  The state cells declared by \<^verbatim>\<open>useState\<close> (lines 15 to 29). A cell of type
  \<^verbatim>\<open>number | null\<close> is an optional integer.
\<close>

record timer =
  workTime :: int
  breakTime :: int
  currentTime :: int
  isActive :: bool
  isWorkSession :: bool
  cycleCount :: nat
  startTime :: "int option"
  sessionStartTime :: "int option"
  currentPosition :: position
  nextPosition :: position
  startingPosition :: position

text \<open>The state the component is mounted with.\<close>

definition initial :: timer where
  "initial =
     \<lparr> workTime = 30 * 60, breakTime = 10 * 60, currentTime = 30 * 60,
       isActive = False, isWorkSession = True, cycleCount = 0,
       startTime = None, sessionStartTime = None,
       currentPosition = Sitting, nextPosition = Standing,
       startingPosition = Sitting \<rparr>"

subsection \<open>JavaScript truthiness of an optional number\<close>

text \<open>
  \<^verbatim>\<open>null\<close>, \<^verbatim>\<open>NaN\<close> and \<^verbatim>\<open>0\<close> are falsy, every other number is truthy. \<open>None\<close>
  stands for \<^verbatim>\<open>null\<close> in a state cell and for \<^verbatim>\<open>NaN\<close> in the result of
  \<^verbatim>\<open>parseInt\<close>.
\<close>

fun truthy :: "int option \<Rightarrow> bool" where
  "truthy None = False"
| "truthy (Some n) = (n \<noteq> 0)"

text \<open>The expression \<^verbatim>\<open>a || b\<close> on such a value.\<close>

fun or_else :: "int option \<Rightarrow> int \<Rightarrow> int" where
  "or_else None b = b"
| "or_else (Some n) b = (if n \<noteq> 0 then n else b)"

subsection \<open>Posture\<close>

text \<open>The ternary \<^verbatim>\<open>p === "sitting" ? "standing" : "sitting"\<close>.\<close>

definition complement :: "position \<Rightarrow> position" where
  "complement p = (if p = Sitting then Standing else Sitting)"

text \<open>\<^verbatim>\<open>togglePosition\<close>, lines 66 to 72.\<close>

definition togglePosition :: "timer \<Rightarrow> timer" where
  "togglePosition s =
     (let newPosition = complement (currentPosition s);
          newNext = complement newPosition
      in s\<lparr>currentPosition := newPosition, nextPosition := newNext\<rparr>)"

text \<open>\<^verbatim>\<open>setInitialPosition\<close>, lines 279 to 283.\<close>

definition setInitialPosition :: "position \<Rightarrow> timer \<Rightarrow> timer" where
  "setInitialPosition p s =
     s\<lparr>startingPosition := p, currentPosition := p, nextPosition := complement p\<rparr>"

subsection \<open>The end of a session\<close>

text \<open>
  The body of \<^verbatim>\<open>if (remainingTime <= 0)\<close>, which the interval callback (lines 107 to
  141) and the visibility handler (lines 182 to 212) share word for word: the phase
  flips, the countdown shows the full length of the new phase, a finished work session
  is counted, the session is anchored at the instant \<open>t\<close> read by the handler, and the
  two postures are exchanged.
\<close>

definition sessionEnd :: "int \<Rightarrow> timer \<Rightarrow> timer" where
  "sessionEnd t s =
     (let s' = (if isWorkSession s
                then s\<lparr>isWorkSession := False, currentTime := breakTime s,
                        cycleCount := cycleCount s + 1, sessionStartTime := Some t\<rparr>
                else s\<lparr>isWorkSession := True, currentTime := workTime s,
                        sessionStartTime := Some t\<rparr>)
      in s'\<lparr>currentPosition := nextPosition s, nextPosition := currentPosition s\<rparr>)"

subsection \<open>The timer effect and its interval callback\<close>

text \<open>
  The effect of lines 84 to 164 runs after a render whose state is \<open>s\<close>, at the
  instant \<open>now\<close>. While the timer is active and \<^verbatim>\<open>startTime\<close> is falsy it sets both
  anchors.
\<close>

definition timerEffect :: "int \<Rightarrow> timer \<Rightarrow> timer" where
  "timerEffect now s =
     (if isActive s \<and> \<not> truthy (startTime s)
      then s\<lparr>startTime := Some now, sessionStartTime := Some now\<rparr>
      else s)"

text \<open>
  The callback given to \<^verbatim>\<open>setInterval\<close>, lines 94 to 142. \<open>now\<close> is the instant the
  effect ran, which the callback falls back to when \<^verbatim>\<open>sessionStartTime\<close> is falsy, and
  \<open>currentNow\<close> the instant the callback runs. \<^verbatim>\<open>Math.floor\<close> of a quotient of integers
  is \<open>div\<close> on \<open>int\<close>.
\<close>

definition intervalCallback :: "int \<Rightarrow> int \<Rightarrow> timer \<Rightarrow> timer" where
  "intervalCallback now currentNow s =
     (let totalSessionTime = (if isWorkSession s then workTime s else breakTime s);
          elapsedTime = (currentNow - or_else (sessionStartTime s) now) div 1000;
          remainingTime = max 0 (totalSessionTime - elapsedTime);
          s1 = s\<lparr>currentTime := remainingTime\<rparr>
      in if remainingTime \<le> 0 then sessionEnd currentNow s1 else s1)"

text \<open>
  The effect registers the callback only while \<^verbatim>\<open>isActive\<close> holds and clears the
  interval otherwise, so a firing of the interval is the callback under that guard.
\<close>

definition tick :: "int \<Rightarrow> int \<Rightarrow> timer \<Rightarrow> timer" where
  "tick now currentNow s = (if isActive s then intervalCallback now currentNow s else s)"

subsection \<open>The visibility handler\<close>

text \<open>
  \<^verbatim>\<open>handleVisibilityChange\<close>, lines 168 to 214; \<open>hidden\<close> is \<^verbatim>\<open>document.hidden\<close> and
  \<open>now\<close> the instant the handler runs.
\<close>

definition handleVisibilityChange :: "bool \<Rightarrow> int \<Rightarrow> timer \<Rightarrow> timer" where
  "handleVisibilityChange hidden now s =
     (case sessionStartTime s of
        None \<Rightarrow> s
      | Some t0 \<Rightarrow>
          if \<not> hidden \<and> isActive s \<and> truthy (Some t0) then
            (let totalSessionTime = (if isWorkSession s then workTime s else breakTime s);
                 elapsedTime = (now - t0) div 1000;
                 remainingTime = max 0 (totalSessionTime - elapsedTime);
                 s1 = s\<lparr>currentTime := remainingTime\<rparr>
             in if remainingTime \<le> 0 then sessionEnd now s1 else s1)
          else s)"

subsection \<open>Controls\<close>

text \<open>\<^verbatim>\<open>startTimer\<close>, lines 236 to 241.\<close>

definition startTimer :: "int \<Rightarrow> timer \<Rightarrow> timer" where
  "startTimer now s =
     s\<lparr>isActive := True, startTime := Some now, sessionStartTime := Some now\<rparr>"

text \<open>\<^verbatim>\<open>pauseTimer\<close>, lines 243 to 247.\<close>

definition pauseTimer :: "timer \<Rightarrow> timer" where
  "pauseTimer s = s\<lparr>isActive := False, startTime := None, sessionStartTime := None\<rparr>"

text \<open>\<^verbatim>\<open>resetTimer\<close>, lines 249 to 260.\<close>

definition resetTimer :: "timer \<Rightarrow> timer" where
  "resetTimer s =
     s\<lparr>isActive := False, isWorkSession := True, currentTime := workTime s,
       currentPosition := startingPosition s,
       nextPosition := (if startingPosition s = Sitting then Standing else Sitting),
       cycleCount := 0, startTime := None, sessionStartTime := None\<rparr>"

text \<open>
  The start/pause button, line 414: \<^verbatim>\<open>onClick={isActive ? pauseTimer : startTimer}\<close>.
\<close>

definition startPauseClick :: "int \<Rightarrow> timer \<Rightarrow> timer" where
  "startPauseClick now s = (if isActive s then pauseTimer s else startTimer now s)"

subsection \<open>Settings\<close>

text \<open>
  A number of minutes as a number field hands it to its handler. JavaScript numbers are
  doubles, and the handlers multiply the number by sixty (lines 264 and 272). On the
  integers whose product with sixty is a safe integer, at most \<open>2^53 - 1\<close> in absolute
  value, that product of doubles is the product of integers. The type holds these
  integers, up to 150119987579016 minutes either way; a longer number typed into a
  field is outside the model.
\<close>

typedef minutes = "{m :: int. \<bar>m\<bar> * 60 \<le> 9007199254740991}"
  by (rule exI [of _ 0]) simp

text \<open>
  The expression \<^verbatim>\<open>a || b\<close> on the result of \<^verbatim>\<open>parseInt\<close>, which is \<^verbatim>\<open>NaN\<close> (\<open>None\<close>)
  or an integer.
\<close>

fun or_minutes :: "minutes option \<Rightarrow> minutes \<Rightarrow> minutes" where
  "or_minutes None b = b"
| "or_minutes (Some n) b = (if Rep_minutes n \<noteq> 0 then n else b)"

text \<open>\<^verbatim>\<open>updateWorkTime\<close>, lines 263 to 269, and \<^verbatim>\<open>updateBreakTime\<close>, lines 271 to 277.\<close>

definition updateWorkTime :: "minutes \<Rightarrow> timer \<Rightarrow> timer" where
  "updateWorkTime minutes s =
     (let seconds = Rep_minutes minutes * 60;
          s1 = s\<lparr>workTime := seconds\<rparr>
      in if isWorkSession s \<and> \<not> isActive s then s1\<lparr>currentTime := seconds\<rparr> else s1)"

definition updateBreakTime :: "minutes \<Rightarrow> timer \<Rightarrow> timer" where
  "updateBreakTime minutes s =
     (let seconds = Rep_minutes minutes * 60;
          s1 = s\<lparr>breakTime := seconds\<rparr>
      in if \<not> isWorkSession s \<and> \<not> isActive s then s1\<lparr>currentTime := seconds\<rparr> else s1)"

text \<open>
  The \<^verbatim>\<open>onChange\<close> handlers of the two number fields, lines 482 to 486 and 500 to
  504: \<^verbatim>\<open>updateWorkTime(parseInt(e.target.value) || 25)\<close> and the same with
  \<^verbatim>\<open>updateBreakTime\<close> and \<^verbatim>\<open>5\<close>. The parameter is the result of \<^verbatim>\<open>parseInt\<close>, \<open>None\<close>
  when it is \<^verbatim>\<open>NaN\<close>. The attributes \<^verbatim>\<open>min\<close> and \<^verbatim>\<open>max\<close> of the fields (1 to 90 for
  work, 1 to 30 for break) do not change the text the handler is given.
\<close>

definition workTimeChange :: "minutes option \<Rightarrow> timer \<Rightarrow> timer" where
  "workTimeChange parsed s = updateWorkTime (or_minutes parsed (Abs_minutes 25)) s"

definition breakTimeChange :: "minutes option \<Rightarrow> timer \<Rightarrow> timer" where
  "breakTimeChange parsed s = updateBreakTime (or_minutes parsed (Abs_minutes 5)) s"

subsection \<open>Runs of the component\<close>

text \<open>
  Everything that can happen to the mounted component, with what the handler reads
  from the environment.
\<close>

datatype event =
    StartPauseClick int
  | ResetClick
  | TogglePositionClick
  | WorkTimeChange "minutes option"
  | BreakTimeChange "minutes option"
  | InitialPositionClick position
  | TimerEffect int
  | IntervalFire int int
  | VisibilityChange bool int

fun step :: "timer \<Rightarrow> event \<Rightarrow> timer" where
  "step s (StartPauseClick now) = startPauseClick now s"
| "step s ResetClick = resetTimer s"
| "step s TogglePositionClick = togglePosition s"
| "step s (WorkTimeChange parsed) = workTimeChange parsed s"
| "step s (BreakTimeChange parsed) = breakTimeChange parsed s"
| "step s (InitialPositionClick p) = setInitialPosition p s"
| "step s (TimerEffect now) = timerEffect now s"
| "step s (IntervalFire now currentNow) = tick now currentNow s"
| "step s (VisibilityChange hidden now) = handleVisibilityChange hidden now s"

text \<open>The state after a sequence of events, from the mounted state.\<close>

definition run :: "event list \<Rightarrow> timer" where
  "run evs = foldl step initial evs"

text \<open>The relation between the two posture cells.\<close>

definition positions_ok :: "timer \<Rightarrow> bool" where
  "positions_ok s = (nextPosition s = complement (currentPosition s))"

section \<open>The earlier, counting component\<close>

text \<open>
  The second source file (\<^verbatim>\<open>src/unnamed/part_000\<close>) holds a component of the same name
  that counts seconds down instead of measuring them from an anchor. Its state has no
  anchor cells.
\<close>

record countdown =
  cd_workTime :: int
  cd_breakTime :: int
  cd_currentTime :: int
  cd_isActive :: bool
  cd_isWorkSession :: bool
  cd_cycleCount :: nat
  cd_currentPosition :: position
  cd_nextPosition :: position
  cd_startingPosition :: position

definition cd_initial :: countdown where
  "cd_initial =
     \<lparr> cd_workTime = 30 * 60, cd_breakTime = 10 * 60, cd_currentTime = 30 * 60,
       cd_isActive = False, cd_isWorkSession = True, cd_cycleCount = 0,
       cd_currentPosition = Sitting, cd_nextPosition = Standing,
       cd_startingPosition = Sitting \<rparr>"

text \<open>
  The timer effect of that file, lines 63 to 108. The interval exists only while
  \<^verbatim>\<open>isActive && currentTime > 0\<close>; its callback updates \<^verbatim>\<open>currentTime\<close> from the
  previous value, and at \<^verbatim>\<open>prevTime <= 1\<close> ends the session, which there begins with
  \<^verbatim>\<open>setIsActive(false)\<close>.
\<close>

definition cd_tick :: "countdown \<Rightarrow> countdown" where
  "cd_tick s =
     (if cd_isActive s \<and> cd_currentTime s > 0 then
        (if cd_currentTime s \<le> 1 then
           (let s' = (if cd_isWorkSession s
                      then s\<lparr>cd_isActive := False, cd_isWorkSession := False,
                              cd_currentTime := cd_breakTime s,
                              cd_cycleCount := cd_cycleCount s + 1\<rparr>
                      else s\<lparr>cd_isActive := False, cd_isWorkSession := True,
                              cd_currentTime := cd_workTime s\<rparr>)
            in s'\<lparr>cd_currentPosition := cd_nextPosition s,
                   cd_nextPosition := cd_currentPosition s\<rparr>)
         else s\<lparr>cd_currentTime := cd_currentTime s - 1\<rparr>)
      else s)"

text \<open>\<^verbatim>\<open>startTimer\<close> and \<^verbatim>\<open>pauseTimer\<close> of that file, lines 111 and 112.\<close>

definition cd_startTimer :: "countdown \<Rightarrow> countdown" where
  "cd_startTimer s = s\<lparr>cd_isActive := True\<rparr>"

definition cd_pauseTimer :: "countdown \<Rightarrow> countdown" where
  "cd_pauseTimer s = s\<lparr>cd_isActive := False\<rparr>"

section \<open>Properties\<close>

subsection \<open>Reset\<close>

text \<open>
  C8. From every state, \<open>resetTimer\<close> gives the work phase with the countdown at the
  work duration, no completed cycle, the current posture equal to the starting posture
  and the next posture its complement, the timer stopped and both anchors cleared.
\<close>

theorem resetTimer_yields:
  "isWorkSession (resetTimer s) = True
   \<and> currentTime (resetTimer s) = workTime s
   \<and> workTime (resetTimer s) = workTime s
   \<and> cycleCount (resetTimer s) = 0
   \<and> currentPosition (resetTimer s) = startingPosition s
   \<and> nextPosition (resetTimer s) = complement (startingPosition s)
   \<and> startingPosition (resetTimer s) = startingPosition s
   \<and> isActive (resetTimer s) = False
   \<and> startTime (resetTimer s) = None
   \<and> sessionStartTime (resetTimer s) = None"
  by (simp add: resetTimer_def complement_def)

subsection \<open>Posture\<close>

lemma complement_complement: "complement (complement p) = p"
  by (cases p) (simp_all add: complement_def)

lemma positions_ok_sessionEnd: "positions_ok s \<Longrightarrow> positions_ok (sessionEnd t s)"
  by (simp add: positions_ok_def sessionEnd_def Let_def complement_complement)

lemma positions_ok_togglePosition: "positions_ok (togglePosition s)"
  by (simp add: positions_ok_def togglePosition_def Let_def)

lemma positions_ok_setInitialPosition: "positions_ok (setInitialPosition p s)"
  by (simp add: positions_ok_def setInitialPosition_def)

lemma positions_ok_resetTimer: "positions_ok (resetTimer s)"
  by (simp add: positions_ok_def resetTimer_def complement_def)

lemma positions_ok_currentTime [simp]:
  "positions_ok (s\<lparr>currentTime := x\<rparr>) = positions_ok s"
  by (simp add: positions_ok_def)

lemma positions_ok_intervalCallback:
  "positions_ok s \<Longrightarrow> positions_ok (intervalCallback now currentNow s)"
  by (simp add: intervalCallback_def Let_def positions_ok_sessionEnd)

lemma positions_ok_handleVisibilityChange:
  "positions_ok s \<Longrightarrow> positions_ok (handleVisibilityChange hidden now s)"
  by (simp add: handleVisibilityChange_def Let_def positions_ok_sessionEnd
      split: option.splits)

lemma positions_ok_step: "positions_ok s \<Longrightarrow> positions_ok (step s e)"
proof (cases e)
  case (StartPauseClick now)
  assume "positions_ok s"
  then show ?thesis
    by (simp add: StartPauseClick startPauseClick_def startTimer_def pauseTimer_def
        positions_ok_def)
next
  case ResetClick
  then show ?thesis by (simp add: positions_ok_resetTimer)
next
  case TogglePositionClick
  then show ?thesis by (simp add: positions_ok_togglePosition)
next
  case (WorkTimeChange parsed)
  assume "positions_ok s"
  then show ?thesis
    by (simp add: WorkTimeChange workTimeChange_def updateWorkTime_def Let_def
        positions_ok_def)
next
  case (BreakTimeChange parsed)
  assume "positions_ok s"
  then show ?thesis
    by (simp add: BreakTimeChange breakTimeChange_def updateBreakTime_def Let_def
        positions_ok_def)
next
  case (InitialPositionClick p)
  then show ?thesis by (simp add: positions_ok_setInitialPosition)
next
  case (TimerEffect now)
  assume "positions_ok s"
  then show ?thesis by (simp add: TimerEffect timerEffect_def positions_ok_def)
next
  case (IntervalFire now currentNow)
  assume "positions_ok s"
  then show ?thesis
    by (simp add: IntervalFire tick_def positions_ok_intervalCallback)
next
  case (VisibilityChange hidden now)
  assume "positions_ok s"
  then show ?thesis
    by (simp add: VisibilityChange positions_ok_handleVisibilityChange)
qed

lemma positions_ok_foldl: "positions_ok s \<Longrightarrow> positions_ok (foldl step s evs)"
  by (induction evs arbitrary: s) (simp_all add: positions_ok_step)

lemma positions_ok_initial: "positions_ok initial"
  by (simp add: positions_ok_def initial_def complement_def)

text \<open>
  C5. In every state the component can reach from the mounted state, the next posture
  is the complement of the current one, and every event (the manual toggle, the exchange
  at the end of a session, the choice of a starting posture, reset and all the others)
  keeps it so.
\<close>

theorem positions_complementary:
  "positions_ok (run evs) \<and> (positions_ok s \<longrightarrow> positions_ok (step s e))"
  by (simp add: run_def positions_ok_foldl positions_ok_initial positions_ok_step)

theorem positions_complementary_witness:
  "positions_ok (run [StartPauseClick 1000, IntervalFire 1000 1801000, TogglePositionClick])
   \<and> positions_ok (setInitialPosition Standing initial)
   \<and> positions_ok (step (setInitialPosition Standing initial) (VisibilityChange False 5000))"
proof -
  let ?evs = "[StartPauseClick 1000, IntervalFire 1000 1801000, TogglePositionClick]"
  let ?s = "setInitialPosition Standing initial"
  have pre: "positions_ok ?s"
    by (simp add: positions_ok_def setInitialPosition_def)
  have both: "positions_ok (run ?evs)
      \<and> (positions_ok ?s \<longrightarrow> positions_ok (step ?s (VisibilityChange False 5000)))"
    by (rule positions_complementary)
  from both pre show ?thesis by blast
qed

text \<open>
  C9. Two manual toggles in a row give back the state they started from, the current
  and the next posture included, whether the timer is running or not. The state is one
  whose two posture cells are complementary, as they are in every reachable state.
\<close>

theorem togglePosition_twice:
  "positions_ok s \<Longrightarrow> togglePosition (togglePosition s) = s"
  by (simp add: togglePosition_def Let_def positions_ok_def complement_complement)

theorem togglePosition_twice_witness:
  "positions_ok (startTimer 1000 initial)
   \<and> isActive (startTimer 1000 initial)
   \<and> togglePosition (togglePosition (startTimer 1000 initial)) = startTimer 1000 initial"
proof -
  have pre: "positions_ok (startTimer 1000 initial)"
    by (simp add: positions_ok_def startTimer_def initial_def complement_def)
  have run: "isActive (startTimer 1000 initial)"
    by (simp add: startTimer_def)
  from pre run togglePosition_twice [OF pre] show ?thesis by blast
qed

text \<open>
  C10. The manual toggle leaves every cell but the two posture cells as it was: putting
  the old postures back gives the old state.
\<close>

theorem togglePosition_frame:
  "workTime (togglePosition s) = workTime s
   \<and> breakTime (togglePosition s) = breakTime s
   \<and> currentTime (togglePosition s) = currentTime s
   \<and> isActive (togglePosition s) = isActive s
   \<and> isWorkSession (togglePosition s) = isWorkSession s
   \<and> cycleCount (togglePosition s) = cycleCount s
   \<and> startTime (togglePosition s) = startTime s
   \<and> sessionStartTime (togglePosition s) = sessionStartTime s
   \<and> startingPosition (togglePosition s) = startingPosition s
   \<and> (togglePosition s)\<lparr>currentPosition := currentPosition s,
         nextPosition := nextPosition s\<rparr> = s"
  by (simp add: togglePosition_def Let_def)

subsection \<open>The interval at the end of a work session\<close>

text \<open>
  C4. The clock is started in the work phase with no cycle completed, at the instant
  \<open>t0\<close>, and the interval fires exactly \<open>workTime\<close> seconds later. The firing makes
  one transition from work to break: the result is the started state with the phase set
  to break, one completed cycle, the countdown at \<open>breakTime\<close>, the session anchored
  at the instant of the firing and the postures exchanged once. A second firing at the
  same instant changes nothing, so the expiry is not acted on twice.
\<close>

theorem tick_at_work_expiry:
  assumes "isWorkSession s" and "cycleCount s = 0" and "0 < t0" and "0 \<le> workTime s"
    and "0 < breakTime s" and "now = t0 + 1000 * workTime s"
  shows "tick eff now (startTimer t0 s) =
           (startTimer t0 s)\<lparr>isWorkSession := False, currentTime := breakTime s,
              cycleCount := 1, sessionStartTime := Some now,
              currentPosition := nextPosition s, nextPosition := currentPosition s\<rparr>
         \<and> tick eff' now (tick eff now (startTimer t0 s)) = tick eff now (startTimer t0 s)"
  using assms
  by (simp add: tick_def intervalCallback_def sessionEnd_def startTimer_def Let_def)

theorem tick_at_work_expiry_witness:
  "isWorkSession initial \<and> cycleCount initial = 0 \<and> (0::int) < 1000
   \<and> 0 \<le> workTime initial \<and> 0 < breakTime initial
   \<and> (1801000::int) = 1000 + 1000 * workTime initial
   \<and> tick 1000 1801000 (startTimer 1000 initial) =
        \<lparr> workTime = 1800, breakTime = 600, currentTime = 600,
          isActive = True, isWorkSession = False, cycleCount = 1,
          startTime = Some 1000, sessionStartTime = Some 1801000,
          currentPosition = Standing, nextPosition = Sitting,
          startingPosition = Sitting \<rparr>
   \<and> tick 1801000 1801000 (tick 1000 1801000 (startTimer 1000 initial))
        = tick 1000 1801000 (startTimer 1000 initial)"
proof -
  have h1: "isWorkSession initial" and h2: "cycleCount initial = 0"
    and h4: "0 \<le> workTime initial" and h5: "0 < breakTime initial"
    and h6: "(1801000::int) = 1000 + 1000 * workTime initial"
    by (simp_all add: initial_def)
  have h3: "(0::int) < 1000" by simp
  note main = tick_at_work_expiry [OF h1 h2 h3 h4 h5 h6, of 1000 1801000]
  have shape: "(startTimer 1000 initial)\<lparr>isWorkSession := False,
        currentTime := breakTime initial, cycleCount := 1,
        sessionStartTime := Some 1801000, currentPosition := nextPosition initial,
        nextPosition := currentPosition initial\<rparr> =
        \<lparr> workTime = 1800, breakTime = 600, currentTime = 600,
          isActive = True, isWorkSession = False, cycleCount = 1,
          startTime = Some 1000, sessionStartTime = Some 1801000,
          currentPosition = Standing, nextPosition = Sitting,
          startingPosition = Sitting \<rparr>"
    by (simp add: startTimer_def initial_def)
  from main have c1: "tick 1000 1801000 (startTimer 1000 initial) =
        (startTimer 1000 initial)\<lparr>isWorkSession := False,
        currentTime := breakTime initial, cycleCount := 1,
        sessionStartTime := Some 1801000, currentPosition := nextPosition initial,
        nextPosition := currentPosition initial\<rparr>"
    and c2: "tick 1801000 1801000 (tick 1000 1801000 (startTimer 1000 initial))
        = tick 1000 1801000 (startTimer 1000 initial)"
    by blast+
  from c1 shape have c1': "tick 1000 1801000 (startTimer 1000 initial) =
        \<lparr> workTime = 1800, breakTime = 600, currentTime = 600,
          isActive = True, isWorkSession = False, cycleCount = 1,
          startTime = Some 1000, sessionStartTime = Some 1801000,
          currentPosition = Standing, nextPosition = Sitting,
          startingPosition = Sitting \<rparr>"
    by (rule trans)
  from c1' c2 h1 h2 h3 h4 h5 h6 show ?thesis by blast
qed

subsection \<open>The visibility handler after a long suspension\<close>

text \<open>
  The mounted component is started at 1000 ms and the handler runs
  \<open>1800 + 600 + 1\<close> seconds later: the state it leaves is not the work phase with
  1799 seconds remaining.
\<close>

theorem resync_two_transitions_counterexample:
  "\<not> (isWorkSession (handleVisibilityChange False 2402000 (startTimer 1000 initial))
       \<and> cycleCount (handleVisibilityChange False 2402000 (startTimer 1000 initial)) = 1
       \<and> currentTime (handleVisibilityChange False 2402000 (startTimer 1000 initial))
           = workTime (startTimer 1000 initial) - 1)"
  by (simp add: handleVisibilityChange_def sessionEnd_def Let_def startTimer_def initial_def)

text \<open>
  C1, as the handler behaves. The clock runs in the work phase, anchored at \<open>t0\<close>, and
  the page becomes visible \<open>workTime + breakTime + 1\<close> seconds later with no firing
  of the interval in between. One run of the handler acts on the first missed expiry
  only: the phase is break, the cycle count is one more than before, the countdown is at
  the full \<open>breakTime\<close>, the session is anchored at the instant of the handler and the
  postures are exchanged once.
\<close>

theorem resync_one_transition:
  assumes "isActive s" and "isWorkSession s" and "sessionStartTime s = Some t0" and "t0 \<noteq> 0"
    and "0 \<le> breakTime s" and "now = t0 + 1000 * (workTime s + breakTime s + 1)"
  shows "handleVisibilityChange False now s =
           s\<lparr>isWorkSession := False, currentTime := breakTime s,
              cycleCount := cycleCount s + 1, sessionStartTime := Some now,
              currentPosition := nextPosition s, nextPosition := currentPosition s\<rparr>"
  using assms
  by (simp add: handleVisibilityChange_def sessionEnd_def Let_def)

theorem resync_one_transition_witness:
  "isActive (startTimer 1000 initial) \<and> isWorkSession (startTimer 1000 initial)
   \<and> sessionStartTime (startTimer 1000 initial) = Some 1000 \<and> (1000::int) \<noteq> 0
   \<and> 0 \<le> breakTime (startTimer 1000 initial)
   \<and> (2402000::int) = 1000 + 1000 * (workTime (startTimer 1000 initial)
         + breakTime (startTimer 1000 initial) + 1)
   \<and> handleVisibilityChange False 2402000 (startTimer 1000 initial) =
        \<lparr> workTime = 1800, breakTime = 600, currentTime = 600,
          isActive = True, isWorkSession = False, cycleCount = 1,
          startTime = Some 1000, sessionStartTime = Some 2402000,
          currentPosition = Standing, nextPosition = Sitting,
          startingPosition = Sitting \<rparr>"
proof -
  let ?s = "startTimer 1000 initial"
  have h1: "isActive ?s" and h2: "isWorkSession ?s"
    and h3: "sessionStartTime ?s = Some 1000" and h5: "0 \<le> breakTime ?s"
    and h6: "(2402000::int) = 1000 + 1000 * (workTime ?s + breakTime ?s + 1)"
    by (simp_all add: startTimer_def initial_def)
  have h4: "(1000::int) \<noteq> 0" by simp
  have shape: "?s\<lparr>isWorkSession := False, currentTime := breakTime ?s,
        cycleCount := cycleCount ?s + 1, sessionStartTime := Some 2402000,
        currentPosition := nextPosition ?s, nextPosition := currentPosition ?s\<rparr> =
        \<lparr> workTime = 1800, breakTime = 600, currentTime = 600,
          isActive = True, isWorkSession = False, cycleCount = 1,
          startTime = Some 1000, sessionStartTime = Some 2402000,
          currentPosition = Standing, nextPosition = Sitting,
          startingPosition = Sitting \<rparr>"
    by (simp add: startTimer_def initial_def)
  from resync_one_transition [OF h1 h2 h3 h4 h5 h6] shape
  have res: "handleVisibilityChange False 2402000 ?s =
        \<lparr> workTime = 1800, breakTime = 600, currentTime = 600,
          isActive = True, isWorkSession = False, cycleCount = 1,
          startTime = Some 1000, sessionStartTime = Some 2402000,
          currentPosition = Standing, nextPosition = Sitting,
          startingPosition = Sitting \<rparr>"
    by (rule trans)
  from h1 h2 h3 h4 h5 h6 res show ?thesis by blast
qed

subsection \<open>Running on after an expiry\<close>

lemma cd_tick_funpow:
  "cd_isActive c \<Longrightarrow> int n < cd_currentTime c \<Longrightarrow>
   (cd_tick ^^ n) c = c\<lparr>cd_currentTime := cd_currentTime c - int n\<rparr>"
proof (induction n)
  case 0
  then show ?case by simp
next
  case (Suc n)
  then have ih: "(cd_tick ^^ n) c = c\<lparr>cd_currentTime := cd_currentTime c - int n\<rparr>"
    by simp
  have "(cd_tick ^^ Suc n) c = cd_tick ((cd_tick ^^ n) c)"
    by simp
  also have "\<dots> = cd_tick (c\<lparr>cd_currentTime := cd_currentTime c - int n\<rparr>)"
    by (simp only: ih)
  also have "\<dots> = c\<lparr>cd_currentTime := cd_currentTime c - int (Suc n)\<rparr>"
    using Suc.prems by (simp add: cd_tick_def)
  finally show ?case .
qed

text \<open>
  The counting component, started from its mounted state, is stopped by its own 1800th
  firing, the one that ends the work session.
\<close>

theorem countdown_stops_counterexample:
  "\<not> cd_isActive ((cd_tick ^^ 1800) (cd_startTimer cd_initial))"
proof -
  let ?c = "cd_startTimer cd_initial"
  have pre: "cd_isActive ?c" "int 1799 < cd_currentTime ?c"
    by (simp_all add: cd_startTimer_def cd_initial_def)
  have "(1800::nat) = Suc 1799"
    by simp
  then have "(cd_tick ^^ 1800) ?c = cd_tick ((cd_tick ^^ 1799) ?c)"
    by (simp only: funpow.simps o_apply)
  also have "\<dots> = cd_tick (?c\<lparr>cd_currentTime := cd_currentTime ?c - int 1799\<rparr>)"
    by (simp only: cd_tick_funpow [OF pre])
  finally have eq: "(cd_tick ^^ 1800) ?c
      = cd_tick (?c\<lparr>cd_currentTime := cd_currentTime ?c - int 1799\<rparr>)" .
  have stopped:
    "\<not> cd_isActive (cd_tick (?c\<lparr>cd_currentTime := cd_currentTime ?c - int 1799\<rparr>))"
    by (simp add: cd_tick_def cd_startTimer_def cd_initial_def)
  show ?thesis
    unfolding eq by (rule stopped)
qed

text \<open>
  C3, as the two components behave. In \<^verbatim>\<open>Pomodoro.tsx\<close>, when the clock runs with a
  truthy anchor \<open>t0\<close> and the phase has expired at \<open>now\<close>, a firing of the interval
  leaves the clock running, in the other phase and anchored at \<open>now\<close>, and the
  visibility handler does exactly the same; so the next phase counts down with no action
  of the user. In the counting component of \<^verbatim>\<open>part_000\<close> the firing that ends a
  session flips the phase and stops the clock, and further firings change nothing until
  the user starts it again.
\<close>

theorem expiry_keeps_running:
  assumes "isActive s" and "sessionStartTime s = Some t0" and "t0 \<noteq> 0"
    and "(if isWorkSession s then workTime s else breakTime s) \<le> (now - t0) div 1000"
    and "cd_isActive c" and "0 < cd_currentTime c" and "cd_currentTime c \<le> 1"
  shows "isActive (tick eff now s)
         \<and> isWorkSession (tick eff now s) = (\<not> isWorkSession s)
         \<and> sessionStartTime (tick eff now s) = Some now
         \<and> handleVisibilityChange False now s = tick eff now s
         \<and> \<not> cd_isActive (cd_tick c)
         \<and> cd_isWorkSession (cd_tick c) = (\<not> cd_isWorkSession c)
         \<and> cd_tick (cd_tick c) = cd_tick c"
proof -
  from assms(1-4) have a: "isActive (tick eff now s)"
    and b: "isWorkSession (tick eff now s) = (\<not> isWorkSession s)"
    and c: "sessionStartTime (tick eff now s) = Some now"
    and d: "handleVisibilityChange False now s = tick eff now s"
    by (simp_all add: tick_def intervalCallback_def handleVisibilityChange_def
        sessionEnd_def Let_def split: if_splits)
  from assms(5-7) have e: "\<not> cd_isActive (cd_tick c)"
    and f: "cd_isWorkSession (cd_tick c) = (\<not> cd_isWorkSession c)"
    by (simp_all add: cd_tick_def Let_def)
  from e have g: "cd_tick (cd_tick c) = cd_tick c"
    by (simp add: cd_tick_def [of "cd_tick c"])
  from a b c d e f g show ?thesis by blast
qed

theorem expiry_keeps_running_witness:
  "isActive (startTimer 1000 initial)
   \<and> isWorkSession (tick 1000 1801000 (startTimer 1000 initial)) = False
   \<and> isActive (tick 1000 1801000 (startTimer 1000 initial))
   \<and> sessionStartTime (tick 1000 1801000 (startTimer 1000 initial)) = Some 1801000
   \<and> handleVisibilityChange False 1801000 (startTimer 1000 initial)
       = tick 1000 1801000 (startTimer 1000 initial)
   \<and> cd_isActive (cd_startTimer (cd_initial\<lparr>cd_currentTime := 1\<rparr>))
   \<and> \<not> cd_isActive (cd_tick (cd_startTimer (cd_initial\<lparr>cd_currentTime := 1\<rparr>)))
   \<and> cd_isWorkSession (cd_tick (cd_startTimer (cd_initial\<lparr>cd_currentTime := 1\<rparr>))) = False"
proof -
  let ?s = "startTimer 1000 initial"
  let ?c = "cd_startTimer (cd_initial\<lparr>cd_currentTime := 1\<rparr>)"
  have h1: "isActive ?s" and h2: "sessionStartTime ?s = Some 1000"
    and h4: "(if isWorkSession ?s then workTime ?s else breakTime ?s)
               \<le> (1801000 - 1000) div 1000"
    and w: "isWorkSession ?s"
    by (simp_all add: startTimer_def initial_def)
  have h3: "(1000::int) \<noteq> 0" by simp
  have h5: "cd_isActive ?c" and h6: "0 < cd_currentTime ?c" and h7: "cd_currentTime ?c \<le> 1"
    and cw: "cd_isWorkSession ?c"
    by (simp_all add: cd_startTimer_def cd_initial_def)
  from expiry_keeps_running [OF h1 h2 h3 h4 h5 h6 h7, of 1000] h1 h5 w cw
  show ?thesis by simp
qed

subsection \<open>Pause and start\<close>

text \<open>
  C2, evaluated. The mounted component is started at 1000 ms and the interval fires
  at 601000 ms: 1200 seconds remain. Pause and start, both at 601000 ms, leave the cell
  \<^verbatim>\<open>currentTime\<close> at 1200, but the first firing after the restart, still at 601000 ms,
  computes 1800: the anchor that pause cleared is set anew by start, and the time already
  worked is gone.
\<close>

theorem pause_then_start_restarts_phase:
  "currentTime (pauseTimer (tick 1000 601000 (startTimer 1000 initial))) = 1200
   \<and> currentTime (startTimer 601000 (pauseTimer (tick 1000 601000 (startTimer 1000 initial))))
       = 1200
   \<and> currentTime (tick 601000 601000
        (startTimer 601000 (pauseTimer (tick 1000 601000 (startTimer 1000 initial)))))
       = 1800"
  by (simp add: tick_def intervalCallback_def pauseTimer_def startTimer_def
      initial_def Let_def)

text \<open>
  The same for every state and instant: after pause and start at \<open>now\<close>, a firing at
  \<open>now\<close> shows the full length of the phase, whatever was left before. The counting
  component has no anchor, and there pause followed by start gives back the running
  state.
\<close>

lemma pause_start_tick_general:
  assumes "now \<noteq> 0" and "0 < (if isWorkSession s then workTime s else breakTime s)"
  shows "currentTime (tick eff now (startTimer now (pauseTimer s)))
         = (if isWorkSession s then workTime s else breakTime s)"
  using assms
  by (cases "isWorkSession s")
     (simp_all add: tick_def intervalCallback_def pauseTimer_def startTimer_def Let_def)

lemma cd_pause_start: "cd_isActive c \<Longrightarrow> cd_startTimer (cd_pauseTimer c) = c"
  by (simp add: cd_startTimer_def cd_pauseTimer_def)

subsection \<open>Start while running\<close>

text \<open>
  The start/pause button calls \<open>pauseTimer\<close> while the clock runs, so the component
  applies \<open>startTimer\<close> to a stopped clock only. The function itself has no guard: on a
  running clock it would set both anchors to \<open>now\<close> and leave the other cells as they
  are.
\<close>

lemma startPauseClick_running: "isActive s \<Longrightarrow> startPauseClick now s = pauseTimer s"
  by (simp add: startPauseClick_def)

lemma startPauseClick_stopped: "\<not> isActive s \<Longrightarrow> startPauseClick now s = startTimer now s"
  by (simp add: startPauseClick_def)

lemma startTimer_unguarded:
  "isActive s \<Longrightarrow>
     startTimer now s = s\<lparr>startTime := Some now, sessionStartTime := Some now\<rparr>"
  by (simp add: startTimer_def)

subsection \<open>Changing the durations\<close>

lemma Rep_minutes_Abs [simp]:
  "\<bar>m\<bar> * 60 \<le> 9007199254740991 \<Longrightarrow> Rep_minutes (Abs_minutes m) = m"
  by (simp add: Abs_minutes_inverse)

lemma workTime_workTimeChange:
  "workTime (workTimeChange parsed s) = Rep_minutes (or_minutes parsed (Abs_minutes 25)) * 60"
  by (simp add: workTimeChange_def updateWorkTime_def Let_def)

lemma breakTime_breakTimeChange:
  "breakTime (breakTimeChange parsed s) = Rep_minutes (or_minutes parsed (Abs_minutes 5)) * 60"
  by (simp add: breakTimeChange_def updateBreakTime_def Let_def)

text \<open>
  C6, evaluated on the mounted component. The number fields declare 1 to 90 minutes of
  work and 1 to 30 minutes of break, but the handlers store sixty times whatever number
  is typed: 500 typed into the work field is stored as 30000 seconds, not clamped to
  5400, and 45 typed into the break field as 2700 seconds, not clamped to 1800. A
  negative number does not fall back to the default either: -5 is stored as -300
  seconds in both fields, and the countdown shown is -300.
\<close>

theorem duration_not_clamped:
  "workTime (workTimeChange (Some (Abs_minutes 500)) initial) = 30000
   \<and> breakTime (breakTimeChange (Some (Abs_minutes 45)) initial) = 2700
   \<and> workTime (workTimeChange (Some (Abs_minutes (- 5))) initial) = - 300
   \<and> currentTime (workTimeChange (Some (Abs_minutes (- 5))) initial) = - 300
   \<and> breakTime (breakTimeChange (Some (Abs_minutes (- 5))) initial) = - 300"
  by (simp add: workTime_workTimeChange breakTime_breakTimeChange)
     (simp add: workTimeChange_def updateWorkTime_def initial_def Let_def)

text \<open>
  What the handlers do get right: an input that \<^verbatim>\<open>parseInt\<close> does not read as a
  number, and the number zero, give the default of 25 minutes of work and 5 minutes of
  break, and a number within the declared range of its field is stored within the
  bounds.
\<close>

lemma duration_fallback:
  "workTime (workTimeChange None s) = 25 * 60
   \<and> workTime (workTimeChange (Some (Abs_minutes 0)) s) = 25 * 60
   \<and> breakTime (breakTimeChange None s) = 5 * 60
   \<and> breakTime (breakTimeChange (Some (Abs_minutes 0)) s) = 5 * 60"
  by (simp add: workTime_workTimeChange breakTime_breakTimeChange)

lemma duration_in_range:
  "1 \<le> m \<Longrightarrow> m \<le> 90 \<Longrightarrow>
     workTime (workTimeChange (Some (Abs_minutes m)) s) = m * 60
     \<and> 60 \<le> workTime (workTimeChange (Some (Abs_minutes m)) s)
     \<and> workTime (workTimeChange (Some (Abs_minutes m)) s) \<le> 5400"
  "1 \<le> m \<Longrightarrow> m \<le> 30 \<Longrightarrow>
     breakTime (breakTimeChange (Some (Abs_minutes m)) s) = m * 60
     \<and> 60 \<le> breakTime (breakTimeChange (Some (Abs_minutes m)) s)
     \<and> breakTime (breakTimeChange (Some (Abs_minutes m)) s) \<le> 1800"
  by (simp_all add: workTime_workTimeChange breakTime_breakTimeChange)

end
